theory Spec2Isabelle
  imports Complex_Main "HOL-Library.Monad_Syntax"
begin

section \<open>KPI aggregation of the operations backend (src/kpi/routes.ts)\<close>

text \<open>
  The KPI routes compute two dashboards from task, workflow and project rows and keep
  the payloads in a process-wide cache. The handlers are embedded as pure functions of
  a snapshot of the data store (the rows the Prisma queries return) and of the clock.

  Numbers. A JavaScript number is modelled by an exact rational: counts and millisecond
  timestamps are integers, hours are rationals. Binary rounding of IEEE doubles is not
  modelled. A division whose divisor is zero has no finite result in JavaScript
  (\<open>NaN\<close> or an infinity); it is the value \<open>None\<close> here, so that "the result is a
  finite number" is a statement that has to be proved.
\<close>

subsection \<open>Number primitives\<close>

definition js_div :: "rat \<Rightarrow> rat \<Rightarrow> rat option" where
  \<comment> \<open>\<open>a / b\<close>; \<open>None\<close> stands for the non-finite result of a zero divisor\<close>
  "js_div a b = (if b = 0 then None else Some (a / b))"

definition js_or :: "rat \<Rightarrow> rat \<Rightarrow> rat" where
  \<comment> \<open>\<open>x || d\<close> on a finite number: the only falsy finite number is zero\<close>
  "js_or x d = (if x = 0 then d else x)"

definition toFixed2 :: "rat \<Rightarrow> rat" where
  \<comment> \<open>\<open>parseFloat(x.toFixed(2))\<close>: the nearest multiple of 1/100, a tie picks the
      larger magnitude (\<open>toFixed\<close> rounds the absolute value and restores the sign)\<close>
  "toFixed2 x =
     (if x < 0 then - (of_int \<lfloor>(- x) * 100 + 1 / 2\<rfloor> / 100)
      else of_int \<lfloor>x * 100 + 1 / 2\<rfloor> / 100)"

definition durationDays :: "int \<Rightarrow> int \<Rightarrow> int" where
  \<comment> \<open>\<open>Math.ceil((end.getTime() - start.getTime()) / (1000 * 60 * 60 * 24))\<close>,
      the expression of lines 116-118 and 326-328\<close>
  "durationDays start end' = \<lceil>(of_int (end' - start) :: rat) / (1000 * 60 * 60 * 24)\<rceil>"

subsection \<open>Rows of the data store\<close>

text \<open>
  The rows follow the Prisma schema. Only the columns the KPI handlers read are kept;
  titles, names and e-mail addresses are copied into the payload by the source and take
  part in no computation. Identifiers are UUID strings. Timestamps are
  \<open>Date.getTime()\<close> values (milliseconds). A \<open>TimeLog\<close> always has a user; an
  \<open>ExternalLog\<close> may have none.
\<close>

datatype TaskStatus = TODO | IN_PROGRESS | REVIEW | DONE | COMPLETED

datatype Status = ACTIVE | ARCHIVED | DELETED

record LogEntry =
  userId :: "string option"
  hours :: rat

record Task =
  task_id :: string
  status :: TaskStatus
  assigneeId :: "string option"
  createdAt :: int
  updatedAt :: int
  timeLogs :: "LogEntry list"
  externalLogs :: "LogEntry list"

record Workflow =
  workflow_id :: string
  tasks :: "Task list"

record Project =
  project_id :: string
  organizationId :: string
  project_status :: Status
  project_createdAt :: int
  workflows :: "Workflow list"

definition isCompleted :: "Task \<Rightarrow> bool" where
  \<comment> \<open>\<open>t.status === 'DONE' || t.status === 'COMPLETED'\<close>, and the query filter
      \<open>status: { in: ['DONE', 'COMPLETED'] }\<close>\<close>
  "isCompleted t = (status t = DONE \<or> status t = COMPLETED)"

definition completionRateOf :: "nat \<Rightarrow> nat \<Rightarrow> rat option" where
  \<comment> \<open>\<open>total > 0 ? (completed / total) * 100 : 0\<close>; the source writes this expression
      out at lines 96, 132, 173 and 358\<close>
  "completionRateOf c n =
     (if n > 0 then map_option (\<lambda>q. q * 100) (js_div (of_nat c) (of_nat n))
      else Some 0)"

subsection \<open>Team dashboard: queries\<close>

text \<open>
  The three queries of the handler share the filter \<open>where\<close>: the task's workflow
  belongs to a project of the organization, the assignee is not null, and, when a
  workflow id was given, the task is in that workflow. A selected row is the pair of
  its (non-null) assignee id and the task. Rows come in the order of the snapshot; the
  source asks for no ordering. All three queries read the same snapshot.
\<close>

definition truthy :: "string option \<Rightarrow> bool" where
  \<comment> \<open>\<open>if (workflowId)\<close>: an absent parameter and the empty string are falsy\<close>
  "truthy s = (case s of None \<Rightarrow> False | Some v \<Rightarrow> v \<noteq> [])"

definition selectRow :: "Task \<Rightarrow> (string \<times> Task) option" where
  \<comment> \<open>\<open>assigneeId: { not: null }\<close>\<close>
  "selectRow t = (case assigneeId t of None \<Rightarrow> None | Some a \<Rightarrow> Some (a, t))"

definition whereTasks :: "string \<Rightarrow> string option \<Rightarrow> Project list \<Rightarrow> (string \<times> Task) list" where
  "whereTasks org workflowId db =
     concat (map (\<lambda>p.
       if organizationId p = org then
         concat (map (\<lambda>w.
           if (if truthy workflowId then workflowId = Some (workflow_id w) else True)
           then List.map_filter selectRow (tasks w) else [])
           (workflows p))
       else []) db)"

definition findCompletedTasks :: "string \<Rightarrow> string option \<Rightarrow> Project list \<Rightarrow> (string \<times> Task) list" where
  \<comment> \<open>\<open>prisma.task.findMany\<close> with \<open>status: { in: ['DONE', 'COMPLETED'] }\<close>\<close>
  "findCompletedTasks org workflowId db =
     filter (\<lambda>r. isCompleted (snd r)) (whereTasks org workflowId db)"

record TaskEntry =
  entry_assigneeId :: string
  count_id :: nat

definition groupByAssignee :: "(string \<times> Task) list \<Rightarrow> TaskEntry list" where
  \<comment> \<open>\<open>prisma.task.groupBy({ by: ['assigneeId'], _count: { id: true } })\<close>: one entry
      for each assignee that has a row, with the number of its rows\<close>
  "groupByAssignee rows =
     map (\<lambda>a. \<lparr>entry_assigneeId = a, count_id = length (filter (\<lambda>r. fst r = a) rows)\<rparr>)
       (remdups (map fst rows))"

subsection \<open>Team dashboard: the fold over the completed tasks\<close>

record TaskRecord =
  taskId :: string
  completionTimeDays :: int
  timeSpentHours :: rat

record EmployeePerformance =
  assignee :: string
  totalCompletedTasks :: nat
  totalTimeSpent :: rat
  averageCompletionTime :: rat
  emp_tasks :: "TaskRecord list"

definition logHours :: "LogEntry list \<Rightarrow> rat" where
  \<comment> \<open>\<open>logs.reduce((total, log) => total + (log.hours || 0), 0)\<close>\<close>
  "logHours logs = foldl (\<lambda>total log. total + js_or (hours log) 0) 0 logs"

definition newEmployee :: "string \<Rightarrow> EmployeePerformance" where
  "newEmployee a =
     \<lparr>assignee = a, totalCompletedTasks = 0, totalTimeSpent = 0,
      averageCompletionTime = 0, emp_tasks = []\<rparr>"

text \<open>
  \<open>employeePerformance\<close> is a plain object keyed by assignee id. Its keys are UUIDs, so
  \<open>Object.keys\<close> and \<open>Object.values\<close> list them in insertion order: it is an
  association list with distinct keys, a new key going to the end.
\<close>

definition foldTask ::
  "(string \<times> EmployeePerformance) list \<Rightarrow> string \<times> Task \<Rightarrow> (string \<times> EmployeePerformance) list" where
  \<comment> \<open>the body of \<open>completedTasks.forEach\<close>, lines 307-343\<close>
  "foldTask acc row =
     (let a = fst row; task = snd row;
          ep = (if map_of acc a = None then acc @ [(a, newEmployee a)] else acc);
          timeLogHours = logHours (timeLogs task);
          externalLogHours = logHours (externalLogs task);
          totalHoursSpent = timeLogHours + externalLogHours;
          days = durationDays (createdAt task) (updatedAt task)
      in map (\<lambda>(k, e).
            if k = a then
              (k, e\<lparr>totalCompletedTasks := totalCompletedTasks e + 1,
                    totalTimeSpent := totalTimeSpent e + totalHoursSpent,
                    emp_tasks := emp_tasks e @
                      [\<lparr>taskId = task_id task, completionTimeDays = days,
                        timeSpentHours = totalHoursSpent\<rparr>]\<rparr>)
            else (k, e)) ep)"

definition employeePerformance :: "(string \<times> Task) list \<Rightarrow> (string \<times> EmployeePerformance) list" where
  "employeePerformance rows = foldl foldTask [] rows"

subsection \<open>Team dashboard: derived metrics and the payload\<close>

record Employee = EmployeePerformance +
  totalTasks :: nat
  completedTasks :: nat
  completionRate :: rat
  averageCompletionTimeDays :: rat
  averageTimePerTaskHours :: rat
  efficiency :: rat

definition countFor :: "TaskEntry list \<Rightarrow> string \<Rightarrow> nat" where
  \<comment> \<open>\<open>entries.find(entry => entry.assigneeId === assigneeId)\<close>, then
      \<open>entry ? entry._count.id : 0\<close>\<close>
  "countFor entries a =
     (case List.find (\<lambda>entry. entry_assigneeId entry = a) entries of
        Some entry \<Rightarrow> count_id entry
      | None \<Rightarrow> 0)"

definition deriveEmployee ::
  "TaskEntry list \<Rightarrow> TaskEntry list \<Rightarrow> string \<times> EmployeePerformance \<Rightarrow> Employee option" where
  \<comment> \<open>the body of \<open>Object.keys(employeePerformance).forEach\<close>, lines 346-385\<close>
  "deriveEmployee allTasks completedTasksGroup kv =
     (let a = fst kv; employee = snd kv;
          totalTasksN = countFor allTasks a;
          completedTasksN = countFor completedTasksGroup a;
          totalCompletionTimeDays =
            foldl (\<lambda>total task. total + completionTimeDays task) 0 (emp_tasks employee)
      in do {
        rate \<leftarrow> completionRateOf completedTasksN totalTasksN;
        avgDays \<leftarrow>
          (if totalCompletedTasks employee > 0
           then js_div (of_int totalCompletionTimeDays) (of_nat (totalCompletedTasks employee))
           else Some 0);
        averageTimePerTask \<leftarrow>
          (if totalCompletedTasks employee > 0
           then js_div (totalTimeSpent employee) (of_nat (totalCompletedTasks employee))
           else Some 0);
        perHour \<leftarrow> js_div (of_nat (totalCompletedTasks employee)) (js_or (totalTimeSpent employee) 1);
        Some \<lparr>assignee = assignee employee,
              totalCompletedTasks = totalCompletedTasks employee,
              totalTimeSpent = totalTimeSpent employee,
              averageCompletionTime = averageCompletionTime employee,
              emp_tasks = emp_tasks employee,
              totalTasks = totalTasksN,
              completedTasks = completedTasksN,
              completionRate = toFixed2 rate,
              averageCompletionTimeDays = toFixed2 avgDays,
              averageTimePerTaskHours = toFixed2 averageTimePerTask,
              efficiency = toFixed2 (perHour * 10)\<rparr>
      })"

definition employeeArray :: "Employee list \<Rightarrow> Employee list" where
  \<comment> \<open>\<open>Object.values(employeePerformance).sort((a, b) => b.efficiency - a.efficiency)\<close>;
      \<open>Array.prototype.sort\<close> is stable, as is \<open>sort_key\<close>\<close>
  "employeeArray es = sort_key (\<lambda>e. - efficiency e) es"

record Stats =
  totalEmployees :: nat
  averageCompletionRate :: rat
  averageEfficiency :: rat

record TeamData =
  employees :: "Employee list"
  topPerformers :: "Employee list"
  stats :: Stats
  scope :: string
  scopeId :: string
  lastUpdated :: int

definition averageOf :: "(Employee \<Rightarrow> rat) \<Rightarrow> Employee list \<Rightarrow> rat option" where
  \<comment> \<open>\<open>arr.reduce((sum, emp) => sum + emp.field, 0) / (arr.length || 1)\<close>\<close>
  "averageOf field arr =
     js_div (foldl (\<lambda>sum emp. sum + field emp) 0 arr) (js_or (of_nat (length arr)) 1)"

definition teamData :: "string \<Rightarrow> string option \<Rightarrow> int \<Rightarrow> Project list \<Rightarrow> TeamData option" where
  \<comment> \<open>what the handler of \<open>GET /kpi/team/:workflowId?\<close> computes on a cache miss,
      lines 237-408; \<open>now\<close> is \<open>new Date()\<close>\<close>
  "teamData org workflowId now db =
     (let rows = findCompletedTasks org workflowId db;
          allTasks = groupByAssignee (whereTasks org workflowId db);
          completedTasksGroup = groupByAssignee rows
      in do {
        es \<leftarrow> those (map (deriveEmployee allTasks completedTasksGroup) (employeePerformance rows));
        avgRate \<leftarrow> averageOf completionRate (employeeArray es);
        avgEfficiency \<leftarrow> averageOf efficiency (employeeArray es);
        Some \<lparr>employees = employeeArray es,
              topPerformers = take 5 (employeeArray es),
              stats = \<lparr>totalEmployees = length (employeeArray es),
                       averageCompletionRate = toFixed2 avgRate,
                       averageEfficiency = toFixed2 avgEfficiency\<rparr>,
              scope = (if truthy workflowId then ''workflow'' else ''organization''),
              scopeId = (case workflowId of None \<Rightarrow> org
                         | Some v \<Rightarrow> if v \<noteq> [] then v else org),
              lastUpdated = now\<rparr>
      })"

subsection \<open>The employee hours of the KPI export\<close>

definition exportTaskHours :: "string \<Rightarrow> Task \<Rightarrow> rat" where
  \<comment> \<open>the KPI export of the reports routes sums, for a task of assignee \<open>a\<close>, the logs
      it first filters with \<open>log.userId === assigneeId\<close>\<close>
  "exportTaskHours a task =
     logHours (filter (\<lambda>log. userId log = Some a) (timeLogs task)) +
     logHours (filter (\<lambda>log. userId log = Some a) (externalLogs task))"

subsection \<open>Organization dashboard\<close>

record ProjectRate =
  rate_projectId :: string
  rate_completionRate :: rat

record ProjectDuration =
  duration_projectId :: string
  duration_days :: int
  startDate :: int
  lastUpdate :: int

record OrgLoop =
  loop_totalTasks :: nat
  loop_completedTasks :: nat
  loop_inProgressTasks :: nat
  loop_rates :: "ProjectRate list"
  loop_durations :: "ProjectDuration list"

definition projectTasks :: "Project \<Rightarrow> Task list" where
  \<comment> \<open>\<open>project.workflows.flatMap(wf => wf.tasks)\<close>\<close>
  "projectTasks project = concat (map tasks (workflows project))"

definition projectStep :: "OrgLoop \<Rightarrow> Project \<Rightarrow> OrgLoop option" where
  \<comment> \<open>the body of \<open>for (const project of projects)\<close>, lines 87-129; \<open>Math.max\<close> is
      called under \<open>taskDates.length > 0\<close> only\<close>
  "projectStep s project =
     (let ts = projectTasks project; projectTasksCount = length ts
      in if projectTasksCount > 0 then
           (let projectCompletedTasks = length (filter isCompleted ts)
            in do {
              rate \<leftarrow> completionRateOf projectCompletedTasks projectTasksCount;
              let s1 = s\<lparr>loop_rates := loop_rates s @
                            [\<lparr>rate_projectId = project_id project,
                              rate_completionRate = toFixed2 rate\<rparr>],
                          loop_totalTasks := loop_totalTasks s + projectTasksCount,
                          loop_completedTasks := loop_completedTasks s + projectCompletedTasks,
                          loop_inProgressTasks := loop_inProgressTasks s +
                            length (filter (\<lambda>t. status t = IN_PROGRESS) ts)\<rparr>;
              Some (case map updatedAt ts of
                      [] \<Rightarrow> s1
                    | d # ds \<Rightarrow>
                        (let latestTaskUpdate = foldl max d ds;
                             projectStart = project_createdAt project
                         in s1\<lparr>loop_durations := loop_durations s1 @
                              [\<lparr>duration_projectId = project_id project,
                                duration_days = durationDays projectStart latestTaskUpdate,
                                startDate = projectStart,
                                lastUpdate = latestTaskUpdate\<rparr>]\<rparr>))
            })
         else Some s)"

fun projectLoop :: "OrgLoop \<Rightarrow> Project list \<Rightarrow> OrgLoop option" where
  "projectLoop s [] = Some s"
| "projectLoop s (project # ps) =
     (case projectStep s project of None \<Rightarrow> None | Some s' \<Rightarrow> projectLoop s' ps)"

record TeamPerformanceEntry =
  team_workflowId :: string
  taskCount :: nat
  team_completedTasks :: nat
  team_completionRate :: rat

definition teamEntry :: "Workflow \<Rightarrow> TeamPerformanceEntry option" where
  \<comment> \<open>the callback of \<open>workflowCompletionRates.map\<close>, lines 168-186\<close>
  "teamEntry w =
     (let totalWfTasks = length (tasks w);
          completedWfTasks = length (filter isCompleted (tasks w))
      in do {
        rate \<leftarrow> completionRateOf completedWfTasks totalWfTasks;
        Some \<lparr>team_workflowId = workflow_id w, taskCount = totalWfTasks,
              team_completedTasks = completedWfTasks,
              team_completionRate = toFixed2 rate\<rparr>
      })"

record Summary =
  totalProjects :: nat
  summary_totalTasks :: nat
  summary_completedTasks :: nat
  inProgressTasks :: nat
  overallCompletionRate :: rat
  avgProjectDuration :: rat

record ProjectsSection =
  projectCompletionRates :: "ProjectRate list"
  projectDurations :: "ProjectDuration list"

record DashboardData =
  summary :: Summary
  projects :: ProjectsSection
  teams :: "TeamPerformanceEntry list"
  org_lastUpdated :: int

definition activeProjects :: "string \<Rightarrow> Project list \<Rightarrow> Project list" where
  \<comment> \<open>\<open>prisma.project.findMany({ where: { organizationId, status: 'ACTIVE' } })\<close>\<close>
  "activeProjects org db =
     filter (\<lambda>p. organizationId p = org \<and> project_status p = ACTIVE) db"

definition orgWorkflows :: "string \<Rightarrow> Project list \<Rightarrow> Workflow list" where
  \<comment> \<open>\<open>prisma.workflow.findMany({ where: { project: { organizationId } } })\<close>\<close>
  "orgWorkflows org db = concat (map workflows (filter (\<lambda>p. organizationId p = org) db))"

definition dashboardData :: "string \<Rightarrow> int \<Rightarrow> Project list \<Rightarrow> DashboardData option" where
  \<comment> \<open>what the handler of \<open>GET /kpi/org\<close> computes on a cache miss, lines 67-210\<close>
  "dashboardData org now db =
     (let ps = activeProjects org db
      in do {
        s \<leftarrow> projectLoop \<lparr>loop_totalTasks = 0, loop_completedTasks = 0,
                           loop_inProgressTasks = 0, loop_rates = [], loop_durations = []\<rparr> ps;
        overall \<leftarrow> completionRateOf (loop_completedTasks s) (loop_totalTasks s);
        entries \<leftarrow> those (map teamEntry (orgWorkflows org db));
        avgDuration \<leftarrow>
          (if length (loop_durations s) > 0
           then js_div (foldl (\<lambda>sum p. sum + of_int (duration_days p)) 0 (loop_durations s))
                  (of_nat (length (loop_durations s)))
           else Some 0);
        Some \<lparr>summary =
                \<lparr>totalProjects = length ps,
                 summary_totalTasks = loop_totalTasks s,
                 summary_completedTasks = loop_completedTasks s,
                 inProgressTasks = loop_inProgressTasks s,
                 overallCompletionRate = toFixed2 overall,
                 avgProjectDuration = toFixed2 avgDuration\<rparr>,
              projects =
                \<lparr>projectCompletionRates = loop_rates s,
                 projectDurations = loop_durations s\<rparr>,
              teams = sort_key (\<lambda>e. - team_completionRate e) entries,
              org_lastUpdated = now\<rparr>
      })"

subsection \<open>The cache\<close>

text \<open>
  The handlers keep their payloads in \<open>kpiCache = new NodeCache({ stdTTL: 86400 })\<close> and
  call \<open>get(key)\<close>, \<open>set(key, value)\<close> and \<open>flushAll()\<close> on it. The class comes from
  the package \<open>node-cache\<close>, whose code is not part of the repository; the three
  operations below follow the contract the specification gives for them. Time is the
  clock reading, in seconds, at the moment of a call.
\<close>

record 'v CacheEntry =
  cached :: 'v
  creationTime :: int
  ttl :: int

record 'v Cache =
  stdTTL :: int
  entries :: "string \<rightharpoonup> 'v CacheEntry"

definition kpiCache :: "'v Cache" where
  \<comment> \<open>line 55: \<open>new NodeCache({ stdTTL: 86400 })\<close>\<close>
  "kpiCache = \<lparr>stdTTL = 86400, entries = Map.empty\<rparr>"

definition cache_set :: "int \<Rightarrow> string \<Rightarrow> 'v \<Rightarrow> 'v Cache \<Rightarrow> 'v Cache" where
  \<comment> \<open>Modelled from the spec: \<open>NodeCache.set\<close> is missing. "stores with a fixed default
      TTL ..., starting from the moment of the call"; an entry is fully replaced.\<close>
  "cache_set now k v c =
     c\<lparr>entries := (entries c)(k \<mapsto> \<lparr>cached = v, creationTime = now, ttl = stdTTL c\<rparr>)\<rparr>"

definition cache_get :: "int \<Rightarrow> string \<Rightarrow> 'v Cache \<Rightarrow> 'v option" where
  \<comment> \<open>Modelled from the spec: \<open>NodeCache.get\<close> is missing. "absent both on true miss and
      on TTL expiry"; "an entry set with TTL t seconds, queried after t seconds have
      elapsed, returns absent".\<close>
  "cache_get now k c =
     (case entries c k of
        None \<Rightarrow> None
      | Some e \<Rightarrow> if ttl e \<le> now - creationTime e then None else Some (cached e))"

definition flushAll :: "'v Cache \<Rightarrow> 'v Cache" where
  \<comment> \<open>Modelled from the spec: \<open>NodeCache.flushAll\<close> is missing. "unconditionally evicts
      every entry regardless of TTL".\<close>
  "flushAll c = c\<lparr>entries := Map.empty\<rparr>"

datatype 'v CacheCall = Set int string 'v | FlushAll

fun call :: "'v Cache \<Rightarrow> 'v CacheCall \<Rightarrow> 'v Cache" where
  "call c (Set now k v) = cache_set now k v c"
| "call c FlushAll = flushAll c"

definition after :: "'v CacheCall list \<Rightarrow> 'v Cache" where
  \<comment> \<open>the process-wide cache after a sequence of the calls the routes make on it\<close>
  "after calls = foldl call kpiCache calls"

subsection \<open>Reference definitions\<close>

text \<open>
  The definitions of this subsection are not taken from the code. They state, in the
  words of the specification, what the aggregation is meant to compute, and the
  theorems below compare the code with them.
\<close>

definition completionRate_spec :: "Task list \<Rightarrow> rat" where
  \<comment> \<open>"(count where status in {DONE, COMPLETED}) / total x 100, rounded to 2 decimals;
      returns 0 when total = 0"\<close>
  "completionRate_spec ts =
     (if length ts = 0 then 0
      else toFixed2 (of_nat (length (filter (\<lambda>t. status t \<in> {DONE, COMPLETED}) ts)) /
                     of_nat (length ts) * 100))"

definition tasksOf :: "string \<Rightarrow> (string \<times> Task) list \<Rightarrow> Task list" where
  \<comment> \<open>the tasks of one assignee among selected rows\<close>
  "tasksOf a rows = map snd (filter (\<lambda>r. fst r = a) rows)"

definition hoursLogged :: "Task \<Rightarrow> rat" where
  \<comment> \<open>"sum of hours across both internal and external log collections for a task"\<close>
  "hoursLogged t = sum_list (map hours (timeLogs t)) + sum_list (map hours (externalLogs t))"

definition accumulated :: "string \<Rightarrow> Task list \<Rightarrow> EmployeePerformance" where
  \<comment> \<open>the accumulator of an assignee whose completed tasks are \<open>ts\<close>\<close>
  "accumulated a ts =
     \<lparr>assignee = a,
      totalCompletedTasks = length ts,
      totalTimeSpent = sum_list (map hoursLogged ts),
      averageCompletionTime = 0,
      emp_tasks = map (\<lambda>t. \<lparr>taskId = task_id t,
                              completionTimeDays = durationDays (createdAt t) (updatedAt t),
                              timeSpentHours = hoursLogged t\<rparr>) ts\<rparr>"

definition firstSeen :: "'a list \<Rightarrow> 'a list" where
  \<comment> \<open>the distinct elements in the order of their first occurrence\<close>
  "firstSeen xs = rev (remdups (rev xs))"

definition rateEntry :: "Project \<Rightarrow> ProjectRate" where
  "rateEntry p =
     \<lparr>rate_projectId = project_id p, rate_completionRate = completionRate_spec (projectTasks p)\<rparr>"

definition durationEntry :: "Project \<Rightarrow> ProjectDuration" where
  \<comment> \<open>"project duration from (latest task update timestamp - project creation
      timestamp)"\<close>
  "durationEntry p =
     \<lparr>duration_projectId = project_id p,
      duration_days =
        durationDays (project_createdAt p) (Max (set (map updatedAt (projectTasks p)))),
      startDate = project_createdAt p,
      lastUpdate = Max (set (map updatedAt (projectTasks p)))\<rparr>"

definition hasTasks :: "Project \<Rightarrow> bool" where
  "hasTasks p = (projectTasks p \<noteq> [])"

subsection \<open>Example data\<close>

definition taskOf :: "string \<Rightarrow> TaskStatus \<Rightarrow> string option \<Rightarrow> LogEntry list \<Rightarrow> Task" where
  "taskOf i st a logs =
     \<lparr>task_id = i, status = st, assigneeId = a, createdAt = 0, updatedAt = 1,
      timeLogs = logs, externalLogs = []\<rparr>"

definition projectOf :: "string \<Rightarrow> Workflow list \<Rightarrow> Project" where
  "projectOf i ws =
     \<lparr>project_id = i, organizationId = ''org'', project_status = ACTIVE,
      project_createdAt = 0, workflows = ws\<rparr>"

definition helperDb :: "Project list" where
  \<comment> \<open>one completed task of \<open>ann\<close>, on which \<open>bob\<close> logged three hours\<close>
  "helperDb =
     [projectOf ''A''
        [\<lparr>workflow_id = ''w'',
          tasks = [taskOf ''t'' DONE (Some ''ann'') [\<lparr>userId = Some ''bob'', hours = 3\<rparr>]]\<rparr>]]"


definition projectA :: Project where
  \<comment> \<open>four tasks, two of them done\<close>
  "projectA =
     projectOf ''A''
       [\<lparr>workflow_id = ''w'',
         tasks = [taskOf ''t1'' DONE (Some ''ann'') [], taskOf ''t2'' DONE (Some ''bob'') [],
                  taskOf ''t3'' TODO (Some ''ann'') [], taskOf ''t4'' TODO None []]\<rparr>]"

definition projectC :: Project where
  \<comment> \<open>one task, done\<close>
  "projectC = projectOf ''C'' [\<lparr>workflow_id = ''u'', tasks = [taskOf ''t5'' DONE (Some ''ann'') []]\<rparr>]"

definition projectB :: Project where
  \<comment> \<open>no task\<close>
  "projectB = projectOf ''B'' [\<lparr>workflow_id = ''v'', tasks = []\<rparr>]"

section \<open>Properties\<close>

subsection \<open>Numbers\<close>

lemma toFixed2_of_int: "toFixed2 (of_int n) = of_int n"
proof -
  have a: "(of_int n :: rat) * 100 + 1 / 2 = of_int (n * 100) + 1 / 2" by simp
  have b: "- (of_int n :: rat) * 100 + 1 / 2 = of_int (- n * 100) + 1 / 2" by simp
  have f: "\<lfloor>(of_int m :: rat) + 1 / 2\<rfloor> = m" for m by linarith
  show ?thesis
    unfolding toFixed2_def a b f by simp
qed


lemma toFixed2_0: "toFixed2 0 = 0"
  using toFixed2_of_int [of 0] by simp



lemma durationDays_nonneg: "s \<le> e \<Longrightarrow> 0 \<le> durationDays s e"
  by (simp add: durationDays_def)

lemma durationDays_nonpos: "e < s \<Longrightarrow> durationDays s e \<le> 0"
  unfolding durationDays_def by (simp add: ceiling_le_iff divide_le_0_iff)

lemma durationDays_neg_iff: "durationDays s e < 0 \<longleftrightarrow> 86400000 \<le> s - e"
proof -
  have "durationDays s e < 0 \<longleftrightarrow> (of_int (e - s) :: rat) / 86400000 \<le> -1"
    unfolding durationDays_def by (simp add: ceiling_less_iff)
  also have "\<dots> \<longleftrightarrow> (of_int (e - s) :: rat) \<le> of_int (- 86400000)"
    by (simp add: divide_le_eq)
  also have "\<dots> \<longleftrightarrow> e - s \<le> - 86400000" by (simp only: of_int_le_iff)
  finally show ?thesis by linarith
qed

subsection \<open>The fold is a grouping by assignee\<close>

lemma js_or_0: "js_or h 0 = h"
  by (simp add: js_or_def)

lemma foldl_hours: "foldl (\<lambda>total log. total + js_or (hours log) 0) a logs = a + sum_list (map hours logs)"
  by (induction logs arbitrary: a) (simp_all add: js_or_0 add.assoc)

lemma logHours_sum: "logHours logs = sum_list (map hours logs)"
  by (simp add: logHours_def foldl_hours)

lemma firstSeen_snoc:
  "firstSeen (xs @ [x]) = (if x \<in> set xs then firstSeen xs else firstSeen xs @ [x])"
  by (simp add: firstSeen_def)

lemma set_firstSeen: "set (firstSeen xs) = set xs"
  by (simp add: firstSeen_def)

lemma distinct_firstSeen: "distinct (firstSeen xs)"
  by (simp add: firstSeen_def)

lemma firstSeen_Nil: "firstSeen [] = []"
  by (simp add: firstSeen_def)

lemma tasksOf_snoc:
  "tasksOf k (rows @ [(a, t)]) = (if a = k then tasksOf k rows @ [t] else tasksOf k rows)"
  by (simp add: tasksOf_def)

lemma tasksOf_empty: "k \<notin> fst ` set rows \<Longrightarrow> tasksOf k rows = []"
  by (auto simp: tasksOf_def filter_empty_conv)

lemma accumulated_Nil: "accumulated a [] = newEmployee a"
  by (simp add: accumulated_def newEmployee_def)

lemma accumulated_snoc:
  "(accumulated a ts)\<lparr>totalCompletedTasks := Suc (totalCompletedTasks (accumulated a ts)),
       totalTimeSpent := totalTimeSpent (accumulated a ts) + (logHours (timeLogs t) + logHours (externalLogs t)),
       emp_tasks := emp_tasks (accumulated a ts) @
          [\<lparr>taskId = task_id t, completionTimeDays = durationDays (createdAt t) (updatedAt t),
            timeSpentHours = logHours (timeLogs t) + logHours (externalLogs t)\<rparr>]\<rparr>
   = accumulated a (ts @ [t])"
  by (simp add: accumulated_def hoursLogged_def logHours_sum)

lemma map_of_keyed: "map_of (map (\<lambda>k. (k, f k)) ks) a = None \<longleftrightarrow> a \<notin> set ks"
  by (induction ks) auto

lemma foldTask_accumulated:
  assumes acc: "acc = map (\<lambda>k. (k, accumulated k (tasksOf k rows))) ks"
    and ks: "set ks = fst ` set rows"
  shows "foldTask acc (a, t) =
         map (\<lambda>k. (k, accumulated k (tasksOf k (rows @ [(a, t)]))))
           (if a \<in> set ks then ks else ks @ [a])"
proof (cases "a \<in> set ks")
  case True
  then have "map_of acc a \<noteq> None" by (simp add: acc map_of_keyed)
  then show ?thesis
    using True
    by (simp add: foldTask_def Let_def acc tasksOf_snoc accumulated_snoc)
next
  case False
  then have none: "map_of acc a = None" by (simp add: acc map_of_keyed)
  have empty: "tasksOf a rows = []" using False ks by (simp add: tasksOf_empty)
  have new: "newEmployee a = accumulated a (tasksOf a rows)"
    by (simp add: empty accumulated_Nil)
  show ?thesis
    using False none
    by (simp add: foldTask_def Let_def acc tasksOf_snoc accumulated_snoc new)
qed

lemma employeePerformance_eq:
  "employeePerformance rows =
   map (\<lambda>k. (k, accumulated k (tasksOf k rows))) (firstSeen (map fst rows))"
proof (induction rows rule: rev_induct)
  case Nil
  show ?case by (simp add: employeePerformance_def firstSeen_Nil)
next
  case (snoc r rows)
  obtain a t where r: "r = (a, t)" by (cases r)
  have "employeePerformance (rows @ [r]) = foldTask (employeePerformance rows) (a, t)"
    by (simp add: employeePerformance_def r)
  also have "\<dots> = map (\<lambda>k. (k, accumulated k (tasksOf k (rows @ [(a, t)]))))
      (if a \<in> set (firstSeen (map fst rows)) then firstSeen (map fst rows)
       else firstSeen (map fst rows) @ [a])"
    by (rule foldTask_accumulated [OF snoc.IH]) (simp add: set_firstSeen)
  also have "(if a \<in> set (firstSeen (map fst rows)) then firstSeen (map fst rows)
       else firstSeen (map fst rows) @ [a]) = firstSeen (map fst (rows @ [r]))"
    by (simp add: firstSeen_snoc set_firstSeen r)
  finally show ?case by (simp add: r)
qed



subsection \<open>The team payload is always produced\<close>

lemma completionRateOf_eq:
  "completionRateOf c n = Some (if n > 0 then of_nat c / of_nat n * 100 else 0)"
  by (simp add: completionRateOf_def js_div_def)

lemma deriveEmployee_eq:
  "deriveEmployee allT doneT (k, e) =
   Some \<lparr>assignee = assignee e,
         totalCompletedTasks = totalCompletedTasks e,
         totalTimeSpent = totalTimeSpent e,
         averageCompletionTime = averageCompletionTime e,
         emp_tasks = emp_tasks e,
         totalTasks = countFor allT k,
         completedTasks = countFor doneT k,
         completionRate =
           toFixed2 (if countFor allT k > 0
                     then of_nat (countFor doneT k) / of_nat (countFor allT k) * 100 else 0),
         averageCompletionTimeDays =
           toFixed2 (if totalCompletedTasks e > 0
                     then of_int (foldl (\<lambda>total task. total + completionTimeDays task) 0 (emp_tasks e)) /
                          of_nat (totalCompletedTasks e)
                     else 0),
         averageTimePerTaskHours =
           toFixed2 (if totalCompletedTasks e > 0
                     then totalTimeSpent e / of_nat (totalCompletedTasks e) else 0),
         efficiency =
           toFixed2 (of_nat (totalCompletedTasks e) /
                     (if totalTimeSpent e = 0 then 1 else totalTimeSpent e) * 10)\<rparr>"
  by (simp add: deriveEmployee_def Let_def completionRateOf_eq js_div_def js_or_def)

lemma those_map_total:
  "(\<And>x. x \<in> set xs \<Longrightarrow> f x = Some (g x)) \<Longrightarrow> those (map f xs) = Some (map g xs)"
  by (induction xs) simp_all

lemma averageOf_eq:
  "averageOf field arr =
   Some (foldl (\<lambda>sum emp. sum + field emp) 0 arr / (if arr = [] then 1 else of_nat (length arr)))"
  by (simp add: averageOf_def js_div_def js_or_def)

lemma those_derive:
  "those (map (deriveEmployee allT doneT) eps) = Some (map (\<lambda>kv. the (deriveEmployee allT doneT kv)) eps)"
proof (rule those_map_total)
  fix kv :: "string \<times> EmployeePerformance"
  obtain k e where "kv = (k, e)" by (cases kv)
  then show "deriveEmployee allT doneT kv = Some (the (deriveEmployee allT doneT kv))"
    by (simp add: deriveEmployee_eq)
qed

lemma teamData_eq:
  "teamData org workflowId now db =
   (let es = employeeArray (map (\<lambda>kv. the (deriveEmployee
                (groupByAssignee (whereTasks org workflowId db))
                (groupByAssignee (findCompletedTasks org workflowId db)) kv))
              (employeePerformance (findCompletedTasks org workflowId db)))
    in Some \<lparr>employees = es,
             topPerformers = take 5 es,
             stats = \<lparr>totalEmployees = length es,
                      averageCompletionRate = toFixed2 (the (averageOf completionRate es)),
                      averageEfficiency = toFixed2 (the (averageOf efficiency es))\<rparr>,
             scope = (if truthy workflowId then ''workflow'' else ''organization''),
             scopeId = (case workflowId of None \<Rightarrow> org | Some v \<Rightarrow> if v \<noteq> [] then v else org),
             lastUpdated = now\<rparr>)"
  by (simp add: teamData_def Let_def those_derive averageOf_eq)


lemma set_employeeArray: "set (employeeArray es) = set es"
  by (simp add: employeeArray_def)

subsection \<open>The team payload\<close>











subsection \<open>Hours and efficiency of an employee\<close>

text \<open>
  Claim C1, on the code. The fold adds every log of a completed task to the hours of the
  task's assignee, whoever logged it: with one completed task of \<open>ann\<close> on which
  \<open>bob\<close> logged three hours, \<open>ann\<close> is reported with three hours and an efficiency of
  3.33. The KPI export of the reports routes keeps the assignee's own logs only and
  gives 0 hours for the same task.
\<close>

theorem helper_hours_counted:
  "map_option (map totalTimeSpent \<circ> employees) (teamData ''org'' None 0 helperDb) = Some [3] \<and>
   map_option (map efficiency \<circ> employees) (teamData ''org'' None 0 helperDb) = Some [333 / 100] \<and>
   map (exportTaskHours ''ann'') (projectTasks (hd helperDb)) = [0]"
  by code_simp




subsection \<open>The organization payload is always produced\<close>

lemma isCompleted_fun: "isCompleted = (\<lambda>t. status t \<in> {DONE, COMPLETED})"
  by (rule ext) (auto simp: isCompleted_def)

lemma rate_is_spec:
  "map_option toFixed2 (completionRateOf (length (filter isCompleted ts)) (length ts)) =
   Some (completionRate_spec ts)"
  by (simp add: completionRateOf_eq completionRate_spec_def isCompleted_fun toFixed2_0)

lemma foldl_max: "foldl max (d::int) ds = Max (set (d # ds))"
proof -
  have "foldl max d ds = fold max ds d"
    by (simp add: foldl_conv_fold max.commute)
  then show ?thesis by (simp only: Max.set_eq_fold)
qed

lemma projectStep_skip: "projectTasks p = [] \<Longrightarrow> projectStep s p = Some s"
  by (simp add: projectStep_def)

lemma projectStep_eq:
  assumes "projectTasks p \<noteq> []"
  shows "projectStep s p =
     Some \<lparr>loop_totalTasks = loop_totalTasks s + length (projectTasks p),
           loop_completedTasks = loop_completedTasks s + length (filter isCompleted (projectTasks p)),
           loop_inProgressTasks = loop_inProgressTasks s +
             length (filter (\<lambda>t. status t = IN_PROGRESS) (projectTasks p)),
           loop_rates = loop_rates s @ [rateEntry p],
           loop_durations = loop_durations s @ [durationEntry p]\<rparr>"
proof -
  obtain t ts where ts: "projectTasks p = t # ts" using assms by (cases "projectTasks p") auto
  have rate: "completionRateOf (length (filter isCompleted (projectTasks p))) (length (projectTasks p)) =
      Some r \<Longrightarrow> toFixed2 r = completionRate_spec (projectTasks p)" for r
    using rate_is_spec [of "projectTasks p"] by simp
  obtain r where r: "completionRateOf (length (filter isCompleted (projectTasks p))) (length (projectTasks p)) = Some r"
    by (simp add: completionRateOf_eq)
  have mx: "foldl max (updatedAt t) (map updatedAt ts) = Max (set (map updatedAt (projectTasks p)))"
    by (simp only: foldl_max ts list.map)
  show ?thesis
    using r rate [OF r] mx
    by (simp add: projectStep_def Let_def rateEntry_def durationEntry_def ts del: foldl_Cons)
qed

lemma projectLoop_eq:
  "projectLoop s ps =
     Some \<lparr>loop_totalTasks = loop_totalTasks s + length (concat (map projectTasks ps)),
           loop_completedTasks = loop_completedTasks s +
             length (filter isCompleted (concat (map projectTasks ps))),
           loop_inProgressTasks = loop_inProgressTasks s +
             length (filter (\<lambda>t. status t = IN_PROGRESS) (concat (map projectTasks ps))),
           loop_rates = loop_rates s @ map rateEntry (filter hasTasks ps),
           loop_durations = loop_durations s @ map durationEntry (filter hasTasks ps)\<rparr>"
proof (induction ps arbitrary: s)
  case Nil
  show ?case by simp
next
  case (Cons p ps)
  show ?case
  proof (cases "projectTasks p = []")
    case True
    then show ?thesis by (simp add: projectStep_skip Cons.IH hasTasks_def)
  next
    case False
    then show ?thesis by (simp add: projectStep_eq Cons.IH hasTasks_def)
  qed
qed

lemma teamEntry_eq:
  "teamEntry w =
   Some \<lparr>team_workflowId = workflow_id w, taskCount = length (tasks w),
         team_completedTasks = length (filter isCompleted (tasks w)),
         team_completionRate = completionRate_spec (tasks w)\<rparr>"
proof -
  obtain r where r: "completionRateOf (length (filter isCompleted (tasks w))) (length (tasks w)) = Some r"
    by (simp add: completionRateOf_eq)
  then have "toFixed2 r = completionRate_spec (tasks w)"
    using rate_is_spec [of "tasks w"] by simp
  then show ?thesis using r by (simp add: teamEntry_def Let_def)
qed

lemma dashboardData_eq:
  "dashboardData org now db =
   (let ps = activeProjects org db; ts = concat (map projectTasks ps);
        ds = map durationEntry (filter hasTasks ps)
    in Some \<lparr>summary =
               \<lparr>totalProjects = length ps,
                summary_totalTasks = length ts,
                summary_completedTasks = length (filter isCompleted ts),
                inProgressTasks = length (filter (\<lambda>t. status t = IN_PROGRESS) ts),
                overallCompletionRate = completionRate_spec ts,
                avgProjectDuration =
                  toFixed2 (if ds = [] then 0
                            else foldl (\<lambda>sum p. sum + of_int (duration_days p)) 0 ds / of_nat (length ds))\<rparr>,
             projects =
               \<lparr>projectCompletionRates = map rateEntry (filter hasTasks ps),
                projectDurations = ds\<rparr>,
             teams = sort_key (\<lambda>e. - team_completionRate e)
               (map (\<lambda>w. \<lparr>team_workflowId = workflow_id w, taskCount = length (tasks w),
                     team_completedTasks = length (filter isCompleted (tasks w)),
                     team_completionRate = completionRate_spec (tasks w)\<rparr>) (orgWorkflows org db)),
             org_lastUpdated = now\<rparr>)"
proof -
  have th: "those (map teamEntry ws) = Some (map (\<lambda>w. \<lparr>team_workflowId = workflow_id w, taskCount = length (tasks w),
                     team_completedTasks = length (filter isCompleted (tasks w)),
                     team_completionRate = completionRate_spec (tasks w)\<rparr>) ws)" for ws
    by (rule those_map_total) (simp add: teamEntry_eq)
  obtain r where r: "completionRateOf (length (filter isCompleted (concat (map projectTasks (activeProjects org db)))))
      (length (concat (map projectTasks (activeProjects org db)))) = Some r"
    by (simp add: completionRateOf_eq)
  then have rs: "toFixed2 r = completionRate_spec (concat (map projectTasks (activeProjects org db)))"
    using rate_is_spec [of "concat (map projectTasks (activeProjects org db))"] by simp
  show ?thesis
    using r rs
    by (simp add: dashboardData_def Let_def projectLoop_eq th js_div_def)
qed

subsection \<open>Completion rates\<close>





subsection \<open>Projects without tasks\<close>

lemma activeProjects_insert:
  "projectTasks B = [] \<Longrightarrow>
   concat (map projectTasks (activeProjects org (db1 @ B # db2))) =
     concat (map projectTasks (activeProjects org (db1 @ db2))) \<and>
   filter hasTasks (activeProjects org (db1 @ B # db2)) =
     filter hasTasks (activeProjects org (db1 @ db2))"
  by (simp add: activeProjects_def hasTasks_def)

lemma dashboardData_fields:
  "\<exists>d. dashboardData org now db = Some d \<and>
     totalProjects (summary d) = length (activeProjects org db) \<and>
     projectCompletionRates (projects d) = map rateEntry (filter hasTasks (activeProjects org db)) \<and>
     projectDurations (projects d) = map durationEntry (filter hasTasks (activeProjects org db)) \<and>
     summary_totalTasks (summary d) = length (concat (map projectTasks (activeProjects org db))) \<and>
     summary_completedTasks (summary d) =
       length (filter isCompleted (concat (map projectTasks (activeProjects org db)))) \<and>
     inProgressTasks (summary d) =
       length (filter (\<lambda>t. status t = IN_PROGRESS) (concat (map projectTasks (activeProjects org db)))) \<and>
     overallCompletionRate (summary d) =
       completionRate_spec (concat (map projectTasks (activeProjects org db))) \<and>
     avgProjectDuration (summary d) =
       toFixed2 (if map durationEntry (filter hasTasks (activeProjects org db)) = [] then 0
                 else foldl (\<lambda>sum p. sum + of_int (duration_days p)) 0
                        (map durationEntry (filter hasTasks (activeProjects org db))) /
                      of_nat (length (map durationEntry (filter hasTasks (activeProjects org db)))))"
  by (simp add: dashboardData_eq Let_def)

lemma length_concat_tasks:
  "length (concat (map projectTasks ps)) = sum_list (map (length \<circ> projectTasks) ps)"
  by (induction ps) simp_all

lemma length_completed_tasks:
  "length (filter isCompleted (concat (map projectTasks ps))) =
   sum_list (map (length \<circ> filter isCompleted \<circ> projectTasks) ps)"
  by (induction ps) simp_all

lemma completionRate_spec_counts:
  "completionRate_spec ts =
     (if length ts = 0 then 0
      else toFixed2 (of_nat (length (filter isCompleted ts)) / of_nat (length ts) * 100))"
  by (simp add: completionRate_spec_def isCompleted_fun)

text \<open>
  Claim C4. A project without tasks adds no entry to the completion rates or to the
  durations of the projects section and leaves the task totals, the overall completion
  rate and the average duration of the summary as they are without it. The overall
  rate is computed from the summed totals. (\<open>totalProjects\<close> is the number of
  projects fetched, with or without tasks.)
\<close>

theorem zero_task_project_skipped:
  assumes "projectTasks B = []"
  shows "\<exists>d d'. dashboardData org now (db1 @ B # db2) = Some d \<and>
     dashboardData org now (db1 @ db2) = Some d' \<and>
     projects d = projects d' \<and>
     map rate_projectId (projectCompletionRates (projects d)) =
       map project_id (filter hasTasks (activeProjects org (db1 @ B # db2))) \<and>
     map duration_projectId (projectDurations (projects d)) =
       map project_id (filter hasTasks (activeProjects org (db1 @ B # db2))) \<and>
     summary_totalTasks (summary d) = summary_totalTasks (summary d') \<and>
     summary_completedTasks (summary d) = summary_completedTasks (summary d') \<and>
     inProgressTasks (summary d) = inProgressTasks (summary d') \<and>
     overallCompletionRate (summary d) = overallCompletionRate (summary d') \<and>
     avgProjectDuration (summary d) = avgProjectDuration (summary d') \<and>
     totalProjects (summary d) = length (activeProjects org (db1 @ B # db2)) \<and>
     summary_totalTasks (summary d) =
       sum_list (map (length \<circ> projectTasks) (activeProjects org (db1 @ B # db2))) \<and>
     summary_completedTasks (summary d) =
       sum_list (map (length \<circ> filter isCompleted \<circ> projectTasks) (activeProjects org (db1 @ B # db2))) \<and>
     overallCompletionRate (summary d) =
       (if summary_totalTasks (summary d) = 0 then 0
        else toFixed2 (of_nat (summary_completedTasks (summary d)) /
                       of_nat (summary_totalTasks (summary d)) * 100))"
proof -
  let ?db = "db1 @ B # db2" and ?db' = "db1 @ db2"
  have ts: "concat (map projectTasks (activeProjects org ?db)) =
      concat (map projectTasks (activeProjects org ?db'))"
    and ps: "filter hasTasks (activeProjects org ?db) = filter hasTasks (activeProjects org ?db')"
    using activeProjects_insert [OF assms, of org db1 db2] by simp_all
  obtain d where d: "dashboardData org now ?db = Some d"
    and count: "totalProjects (summary d) = length (activeProjects org ?db)"
    and rates: "projectCompletionRates (projects d) = map rateEntry (filter hasTasks (activeProjects org ?db))"
    and durs: "projectDurations (projects d) = map durationEntry (filter hasTasks (activeProjects org ?db))"
    and total: "summary_totalTasks (summary d) = length (concat (map projectTasks (activeProjects org ?db)))"
    and compl: "summary_completedTasks (summary d) =
       length (filter isCompleted (concat (map projectTasks (activeProjects org ?db))))"
    and inprog: "inProgressTasks (summary d) =
       length (filter (\<lambda>t. status t = IN_PROGRESS) (concat (map projectTasks (activeProjects org ?db))))"
    and overall: "overallCompletionRate (summary d) =
       completionRate_spec (concat (map projectTasks (activeProjects org ?db)))"
    and avg: "avgProjectDuration (summary d) =
       toFixed2 (if map durationEntry (filter hasTasks (activeProjects org ?db)) = [] then 0
                 else foldl (\<lambda>sum p. sum + of_int (duration_days p)) 0
                        (map durationEntry (filter hasTasks (activeProjects org ?db))) /
                      of_nat (length (map durationEntry (filter hasTasks (activeProjects org ?db)))))"
    using dashboardData_fields [of org now ?db] by blast
  obtain d' where d': "dashboardData org now ?db' = Some d'"
    and rates': "projectCompletionRates (projects d') = map rateEntry (filter hasTasks (activeProjects org ?db'))"
    and durs': "projectDurations (projects d') = map durationEntry (filter hasTasks (activeProjects org ?db'))"
    and total': "summary_totalTasks (summary d') = length (concat (map projectTasks (activeProjects org ?db')))"
    and compl': "summary_completedTasks (summary d') =
       length (filter isCompleted (concat (map projectTasks (activeProjects org ?db'))))"
    and inprog': "inProgressTasks (summary d') =
       length (filter (\<lambda>t. status t = IN_PROGRESS) (concat (map projectTasks (activeProjects org ?db'))))"
    and overall': "overallCompletionRate (summary d') =
       completionRate_spec (concat (map projectTasks (activeProjects org ?db')))"
    and avg': "avgProjectDuration (summary d') =
       toFixed2 (if map durationEntry (filter hasTasks (activeProjects org ?db')) = [] then 0
                 else foldl (\<lambda>sum p. sum + of_int (duration_days p)) 0
                        (map durationEntry (filter hasTasks (activeProjects org ?db'))) /
                      of_nat (length (map durationEntry (filter hasTasks (activeProjects org ?db')))))"
    using dashboardData_fields [of org now ?db'] by blast
  have c1: "projects d = projects d'"
    by (rule ProjectsSection.equality) (simp_all add: rates rates' durs durs' ps)
  have c2: "map rate_projectId (projectCompletionRates (projects d)) =
       map project_id (filter hasTasks (activeProjects org ?db))"
    by (simp add: rates rateEntry_def)
  have c3: "map duration_projectId (projectDurations (projects d)) =
       map project_id (filter hasTasks (activeProjects org ?db))"
    by (simp add: durs durationEntry_def)
  have c4: "summary_totalTasks (summary d) = summary_totalTasks (summary d')"
    by (simp only: total total' ts)
  have c5: "summary_completedTasks (summary d) = summary_completedTasks (summary d')"
    by (simp only: compl compl' ts)
  have c6: "inProgressTasks (summary d) = inProgressTasks (summary d')"
    by (simp only: inprog inprog' ts)
  have c7: "overallCompletionRate (summary d) = overallCompletionRate (summary d')"
    by (simp only: overall overall' ts)
  have c8: "avgProjectDuration (summary d) = avgProjectDuration (summary d')"
    by (simp only: avg avg' ps)
  have c9: "summary_totalTasks (summary d) =
       sum_list (map (length \<circ> projectTasks) (activeProjects org ?db))"
    by (simp only: total length_concat_tasks)
  have c10: "summary_completedTasks (summary d) =
       sum_list (map (length \<circ> filter isCompleted \<circ> projectTasks) (activeProjects org ?db))"
    by (simp only: compl length_completed_tasks)
  have c11: "overallCompletionRate (summary d) =
       (if summary_totalTasks (summary d) = 0 then 0
        else toFixed2 (of_nat (summary_completedTasks (summary d)) /
                       of_nat (summary_totalTasks (summary d)) * 100))"
    by (simp only: overall total compl completionRate_spec_counts)
  show ?thesis
    using d d' c1 c2 c3 c4 c5 c6 c7 c8 count c9 c10 c11 by blast
qed

theorem zero_task_project_skipped_witness:
  "projectTasks projectB = [] \<and>
   map_option (overallCompletionRate \<circ> summary) (dashboardData ''org'' 0 [projectA, projectB]) = Some 50 \<and>
   map_option (map rate_projectId \<circ> projectCompletionRates \<circ> projects)
     (dashboardData ''org'' 0 [projectA, projectB]) = Some [''A''] \<and>
   map_option (map duration_projectId \<circ> projectDurations \<circ> projects)
     (dashboardData ''org'' 0 [projectA, projectB]) = Some [''A''] \<and>
   map_option (summary_totalTasks \<circ> summary) (dashboardData ''org'' 0 [projectA, projectB]) = Some 4 \<and>
   map_option (summary_completedTasks \<circ> summary) (dashboardData ''org'' 0 [projectA, projectB]) = Some 2 \<and>
   map_option (totalProjects \<circ> summary) (dashboardData ''org'' 0 [projectA, projectB]) = Some 2 \<and>
   map_option (map rate_completionRate \<circ> projectCompletionRates \<circ> projects)
     (dashboardData ''org'' 0 [projectA, projectC]) = Some [50, 100] \<and>
   map_option (overallCompletionRate \<circ> summary) (dashboardData ''org'' 0 [projectA, projectC]) = Some 60"
proof -
  have b: "projectTasks projectB = []" by code_simp
  have a: "dashboardData ''org'' 0 ([projectA] @ []) =
      Some d' \<Longrightarrow> overallCompletionRate (summary d') = 50 \<and>
        map rate_projectId (projectCompletionRates (projects d')) = [''A''] \<and>
        map duration_projectId (projectDurations (projects d')) = [''A''] \<and>
        summary_totalTasks (summary d') = 4 \<and> summary_completedTasks (summary d') = 2" for d'
  proof -
    assume d': "dashboardData ''org'' 0 ([projectA] @ []) = Some d'"
    have "map_option (\<lambda>d. (overallCompletionRate (summary d),
            map rate_projectId (projectCompletionRates (projects d)),
            map duration_projectId (projectDurations (projects d)),
            summary_totalTasks (summary d), summary_completedTasks (summary d)))
          (dashboardData ''org'' 0 ([projectA] @ [])) = Some (50, [''A''], [''A''], 4, 2)"
      by code_simp
    then show ?thesis using d' by auto
  qed
  have c: "map_option (map rate_completionRate \<circ> projectCompletionRates \<circ> projects)
     (dashboardData ''org'' 0 [projectA, projectC]) = Some [50, 100] \<and>
   map_option (overallCompletionRate \<circ> summary) (dashboardData ''org'' 0 [projectA, projectC]) = Some 60"
    by code_simp
  obtain d d' where d: "dashboardData ''org'' 0 ([projectA] @ projectB # []) = Some d"
    and d': "dashboardData ''org'' 0 ([projectA] @ []) = Some d'"
    and eq: "projects d = projects d'"
      "summary_totalTasks (summary d) = summary_totalTasks (summary d')"
      "summary_completedTasks (summary d) = summary_completedTasks (summary d')"
      "overallCompletionRate (summary d) = overallCompletionRate (summary d')"
      "totalProjects (summary d) = length (activeProjects ''org'' ([projectA] @ projectB # []))"
    using zero_task_project_skipped [OF b, of "''org''" 0 "[projectA]" "[]"] by blast
  have n: "length (activeProjects ''org'' ([projectA] @ projectB # [])) = 2" by code_simp
  show ?thesis
    using a [OF d'] b c d eq n by simp
qed

subsection \<open>The cache\<close>

lemma after_snoc: "after (calls @ [c]) = call (after calls) c"
  by (simp add: after_def)

lemma after_stdTTL: "stdTTL (after calls) = 86400"
proof (induction calls rule: rev_induct)
  case Nil
  show ?case by (simp add: after_def kpiCache_def)
next
  case (snoc c calls)
  then show ?case
    by (cases c) (simp_all add: after_snoc cache_set_def flushAll_def)
qed

lemma after_ttl: "entries (after calls) k = Some e \<Longrightarrow> ttl e = 86400"
proof (induction calls arbitrary: k e rule: rev_induct)
  case Nil
  then show ?case by (simp add: after_def kpiCache_def)
next
  case (snoc c calls)
  show ?case
  proof (cases c)
    case (Set now k' v)
    with snoc.prems have "entries (cache_set now k' v (after calls)) k = Some e"
      by (simp add: after_snoc)
    then show ?thesis
      using snoc.IH [of k e] after_stdTTL [of calls]
      by (auto simp: cache_set_def split: if_splits)
  next
    case FlushAll
    with snoc.prems show ?thesis by (simp add: after_snoc flushAll_def)
  qed
qed

text \<open>
  Claim C7. On the cache of the routes, a \<open>get\<close> that follows a \<open>set\<close> of the same key
  at once returns the value that was set, and after \<open>flushAll\<close> every \<open>get\<close> returns
  absent, whatever the key and the time of the call.
\<close>

theorem cache_round_trip:
  "cache_get now k (cache_set now k v (after calls)) = Some v \<and>
   cache_get now' k' (flushAll (after calls)) = None \<and>
   cache_get now' k (flushAll (cache_set now k v (after calls))) = None"
  by (simp add: cache_get_def cache_set_def flushAll_def after_stdTTL)

text \<open>
  Claim C8. Every entry of the cache of the routes has a TTL of 86,400 seconds that
  starts at its \<open>set\<close> call. A \<open>get\<close> issued 86,400 seconds or more after the \<open>set\<close>
  returns absent, and a value that a \<open>get\<close> returns is younger than its TTL.
\<close>

theorem cache_ttl:
  "entries (cache_set now k v (after calls)) k =
     Some \<lparr>cached = v, creationTime = now, ttl = 86400\<rparr> \<and>
   (entries (after calls) k = Some e \<longrightarrow> ttl e = 86400) \<and>
   (now + 86400 \<le> now' \<longrightarrow> cache_get now' k (cache_set now k v (after calls)) = None) \<and>
   (cache_get now' k (after calls) = Some v' \<longrightarrow>
      (\<exists>e'. entries (after calls) k = Some e' \<and> cached e' = v' \<and>
            now' - creationTime e' < ttl e' \<and> ttl e' = 86400))"
proof -
  have a: "entries (cache_set now k v (after calls)) k =
     Some \<lparr>cached = v, creationTime = now, ttl = 86400\<rparr>"
    by (simp add: cache_set_def after_stdTTL)
  have b: "entries (after calls) k = Some e \<longrightarrow> ttl e = 86400"
    using after_ttl by blast
  have c: "now + 86400 \<le> now' \<longrightarrow> cache_get now' k (cache_set now k v (after calls)) = None"
    by (simp add: cache_get_def a)
  have d: "cache_get now' k (after calls) = Some v' \<longrightarrow>
      (\<exists>e'. entries (after calls) k = Some e' \<and> cached e' = v' \<and>
            now' - creationTime e' < ttl e' \<and> ttl e' = 86400)"
    using after_ttl [of calls k]
    by (auto simp: cache_get_def split: option.splits if_splits)
  show ?thesis using a b c d by blast
qed

theorem cache_ttl_witness:
  "entries (after [Set 0 ''orgKPI-org'' (1::nat)]) ''orgKPI-org'' =
     Some \<lparr>cached = 1, creationTime = 0, ttl = 86400\<rparr> \<and>
   (0::int) + 86400 \<le> 86400 \<and>
   cache_get 86400 ''orgKPI-org'' (cache_set 0 ''orgKPI-org'' (1::nat) (after [])) = None \<and>
   cache_get 86399 ''orgKPI-org'' (after [Set 0 ''orgKPI-org'' (1::nat)]) = Some 1 \<and>
   (86399::int) - 0 < 86400"
proof -
  have s: "after [Set 0 ''orgKPI-org'' (1::nat)] = cache_set 0 ''orgKPI-org'' 1 (after [])"
    by (simp add: after_def)
  have g: "cache_get 86399 ''orgKPI-org'' (after [Set 0 ''orgKPI-org'' (1::nat)]) = Some 1"
    by (simp add: s cache_get_def cache_set_def after_def kpiCache_def)
  show ?thesis
    using g s
      cache_ttl [of 0 "''orgKPI-org''" "1::nat" "[]" _ 86400]
      cache_ttl [of 0 "''orgKPI-org''" "1::nat" "[Set 0 ''orgKPI-org'' (1::nat)]"
         "\<lparr>cached = 1, creationTime = 0, ttl = 86400\<rparr>" 86399 1]
    by simp
qed

subsection \<open>Durations\<close>

lemma employee_task_days:
  assumes "teamData org workflowId now db = Some td" and "e \<in> set (employees td)"
  shows "map completionTimeDays (emp_tasks e) =
         map (\<lambda>t. durationDays (createdAt t) (updatedAt t))
           (tasksOf (assignee e) (findCompletedTasks org workflowId db))"
proof -
  let ?f = "\<lambda>kv. the (deriveEmployee (groupByAssignee (whereTasks org workflowId db))
              (groupByAssignee (findCompletedTasks org workflowId db)) kv)"
  from assms have "e \<in> ?f ` set (employeePerformance (findCompletedTasks org workflowId db))"
    by (auto simp: teamData_eq Let_def set_employeeArray)
  then obtain k where e: "e = ?f (k, accumulated k (tasksOf k (findCompletedTasks org workflowId db)))"
    by (auto simp: employeePerformance_eq)
  show ?thesis
    by (simp add: e deriveEmployee_eq accumulated_def comp_def)
qed

text \<open>
  Claim C9, as the code has it. A duration is the ceiling of the difference in
  milliseconds over 86,400,000. It is at least 0 when the end is not before the start.
  When the end is before the start it is at most 0, and it is negative exactly when the
  end is a full day or more before the start. The payloads carry the value as computed:
  the completion time of each task record is the duration from the task's creation to
  its last update, and the duration of each project entry is the duration from the
  project's creation to the latest update of its tasks.
\<close>

theorem durationDays_sign:
  "durationDays s e = \<lceil>(of_int (e - s) :: rat) / 86400000\<rceil> \<and>
   (s \<le> e \<longrightarrow> 0 \<le> durationDays s e) \<and>
   (e < s \<longrightarrow> durationDays s e \<le> 0 \<and> (durationDays s e < 0 \<longleftrightarrow> 86400000 \<le> s - e)) \<and>
   (\<exists>td. teamData org workflowId now db = Some td \<and>
      (\<forall>emp \<in> set (employees td).
         map completionTimeDays (emp_tasks emp) =
         map (\<lambda>t. durationDays (createdAt t) (updatedAt t))
           (tasksOf (assignee emp) (findCompletedTasks org workflowId db)))) \<and>
   (\<exists>d. dashboardData org now db = Some d \<and>
      map duration_days (projectDurations (projects d)) =
      map (\<lambda>p. durationDays (project_createdAt p) (Max (set (map updatedAt (projectTasks p)))))
        (filter hasTasks (activeProjects org db)))"
proof -
  have a: "durationDays s e = \<lceil>(of_int (e - s) :: rat) / 86400000\<rceil>"
    by (simp add: durationDays_def)
  have b: "\<exists>td. teamData org workflowId now db = Some td \<and>
      (\<forall>emp \<in> set (employees td).
         map completionTimeDays (emp_tasks emp) =
         map (\<lambda>t. durationDays (createdAt t) (updatedAt t))
           (tasksOf (assignee emp) (findCompletedTasks org workflowId db)))"
  proof -
    obtain td where td: "teamData org workflowId now db = Some td"
      by (simp add: teamData_eq Let_def)
    with employee_task_days show ?thesis by blast
  qed
  have c: "\<exists>d. dashboardData org now db = Some d \<and>
      map duration_days (projectDurations (projects d)) =
      map (\<lambda>p. durationDays (project_createdAt p) (Max (set (map updatedAt (projectTasks p)))))
        (filter hasTasks (activeProjects org db))"
    by (simp add: dashboardData_eq Let_def durationEntry_def comp_def)
  show ?thesis
    using a b c durationDays_nonneg [of s e] durationDays_nonpos [of e s] durationDays_neg_iff [of s e]
    by (intro conjI impI) simp_all
qed

theorem durationDays_sign_witness:
  "(0::int) \<le> 5 \<and> 0 \<le> durationDays 0 5 \<and>
   (0::int) < 86400000 \<and> durationDays 86400000 0 \<le> 0 \<and> durationDays 86400000 0 < 0 \<and>
   (\<exists>td emp. teamData ''org'' None 0 [projectA] = Some td \<and> emp \<in> set (employees td) \<and>
      map completionTimeDays (emp_tasks emp) =
      map (\<lambda>t. durationDays (createdAt t) (updatedAt t))
        (tasksOf (assignee emp) (findCompletedTasks ''org'' None [projectA])))"
proof -
  obtain td where td: "teamData ''org'' None 0 [projectA] = Some td"
    and all: "\<forall>emp \<in> set (employees td).
       map completionTimeDays (emp_tasks emp) =
       map (\<lambda>t. durationDays (createdAt t) (updatedAt t))
         (tasksOf (assignee emp) (findCompletedTasks ''org'' None [projectA]))"
    using durationDays_sign [of 0 5 "''org''" None 0 "[projectA]"] by blast
  have "map_option (\<lambda>d. length (employees d)) (teamData ''org'' None 0 [projectA]) = Some 2"
    by code_simp
  then have "employees td \<noteq> []" by (auto simp: td)
  then obtain emp where "emp \<in> set (employees td)" by (cases "employees td") auto
  then have ex: "\<exists>td emp. teamData ''org'' None 0 [projectA] = Some td \<and> emp \<in> set (employees td) \<and>
      map completionTimeDays (emp_tasks emp) =
      map (\<lambda>t. durationDays (createdAt t) (updatedAt t))
        (tasksOf (assignee emp) (findCompletedTasks ''org'' None [projectA]))"
    using td all by blast
  show ?thesis
    using ex durationDays_sign [of 0 5 "''org''" None 0 "[]"]
      durationDays_sign [of 86400000 0 "''org''" None 0 "[]"]
    by simp
qed

text \<open>
  The claim as it is written says that every end before the start gives a negative
  duration. An end one millisecond before the start gives 0.
\<close>

theorem durationDays_negative_counterexample:
  "(0::int) < 1 \<and> \<not> durationDays 1 0 < 0"
  by (simp add: durationDays_neg_iff)

end
